theory Spec2Isabelle
  imports Main
begin

section \<open>Quake .map to VMF converter: the parser and the generator of vmapconverter.py\<close>

text \<open>
  The development embeds the two core functions of
  \<^verbatim>\<open>General Tools/QuakeExtractorAndConverter/vmapconverter.py\<close>:
  \<^verbatim>\<open>parse_quake_map\<close> (lines 14-83) and \<^verbatim>\<open>generate_vmf_content\<close> (lines 86-203),
  and the loop of \<^verbatim>\<open>convert_folder\<close> that calls them for every map file (lines 322-353).

  Python strings are modelled as \<open>string\<close>. The character predicates follow Python on
  ASCII text: a non-ASCII value of \<open>char\<close> counts as an ordinary character that is neither
  white space, nor a digit, nor a letter with a case.
\<close>

subsection \<open>Characters and strings\<close>

text \<open>\<^verbatim>\<open>str.isspace\<close>, also the class \<^verbatim>\<open>\s\<close> of the \<^verbatim>\<open>re\<close> module: the ASCII
  characters 9 to 13, 28 to 31 and the blank.\<close>

definition isspace :: "char \<Rightarrow> bool" where
  "isspace c = (let n = (of_char c :: nat) in (9 \<le> n \<and> n \<le> 13) \<or> (28 \<le> n \<and> n \<le> 32))"

text \<open>The class \<^verbatim>\<open>\d\<close>.\<close>

definition isdigit :: "char \<Rightarrow> bool" where
  "isdigit c = (let n = (of_char c :: nat) in 48 \<le> n \<and> n \<le> 57)"

text \<open>\<^verbatim>\<open>str.strip()\<close>: white space removed at both ends.\<close>

definition strip :: "string \<Rightarrow> string" where
  "strip s = rev (dropWhile isspace (rev (dropWhile isspace s)))"

definition startswith :: "string \<Rightarrow> string \<Rightarrow> bool" where
  "startswith s p = (take (length p) s = p)"

definition lower_char :: "char \<Rightarrow> char" where
  "lower_char c = (let n = (of_char c :: nat) in if 65 \<le> n \<and> n \<le> 90 then char_of (n + 32) else c)"

definition upper_char :: "char \<Rightarrow> char" where
  "upper_char c = (let n = (of_char c :: nat) in if 97 \<le> n \<and> n \<le> 122 then char_of (n - 32) else c)"

text \<open>\<^verbatim>\<open>str.lower()\<close> and \<^verbatim>\<open>str.upper()\<close>.\<close>

definition lower :: "string \<Rightarrow> string" where
  "lower s = map lower_char s"

definition upper :: "string \<Rightarrow> string" where
  "upper s = map upper_char s"

text \<open>\<^verbatim>\<open>str(n)\<close> for a natural number: its decimal digits.\<close>

definition digit_char :: "nat \<Rightarrow> char" where
  "digit_char d = char_of (48 + d)"

fun str_nat :: "nat \<Rightarrow> string" where
  "str_nat n = (if n < 10 then [digit_char n] else str_nat (n div 10) @ [digit_char (n mod 10)])"

declare str_nat.simps [simp del]

subsection \<open>Python floats: IEEE 754 binary64, rounding to nearest, ties to even\<close>

text \<open>
  A finite double is \<open>Finite s m e\<close>, of value \<open>(-1)\<^sup>s \<times> m \<times> 2\<^sup>e\<close>, kept canonical by
  \<open>round_to_double\<close>: either \<open>2\<^sup>5\<^sup>2 \<le> m < 2\<^sup>5\<^sup>3\<close> and \<open>-1074 \<le> e \<le> 971\<close>, or \<open>m < 2\<^sup>5\<^sup>2\<close>
  and \<open>e = -1074\<close> (zeros and subnormal numbers). The sign bit is kept on zeros, as the
  hardware does: \<^verbatim>\<open>-0.0\<close> is \<open>Finite True 0 (-1074)\<close>.
\<close>

datatype double = Finite bool nat int | Infinity bool | NaN

text \<open>\<^verbatim>\<open>int.bit_length()\<close>.\<close>

fun bit_length :: "nat \<Rightarrow> nat" where
  "bit_length n = (if n = 0 then 0 else Suc (bit_length (n div 2)))"

declare bit_length.simps [simp del]

text \<open>The fraction \<open>n / d\<close> divided by \<open>2\<^sup>e\<close>, as a fraction again.\<close>

definition scale2 :: "nat \<Rightarrow> nat \<Rightarrow> int \<Rightarrow> nat \<times> nat" where
  "scale2 n d e = (if 0 \<le> e then (n, d * 2 ^ nat e) else (n * 2 ^ nat (- e), d))"

text \<open>The integer nearest to \<open>n / d\<close>, a tie going to the even neighbour.\<close>

definition round_half_even :: "nat \<Rightarrow> nat \<Rightarrow> nat" where
  "round_half_even n d =
     (let q = n div d; r = n mod d in
      if 2 * r < d then q
      else if d < 2 * r then q + 1
      else if even q then q else q + 1)"

text \<open>\<open>\<lfloor>log\<^sub>2 (n / d)\<rfloor>\<close> for positive \<open>n\<close> and \<open>d\<close>.\<close>

definition floor_log2 :: "nat \<Rightarrow> nat \<Rightarrow> int" where
  "floor_log2 n d =
     (let k = int (bit_length n) - int (bit_length d) in
      case scale2 n d k of (n', d') \<Rightarrow> if d' \<le> n' then k else k - 1)"

text \<open>The double nearest to \<open>(-1)\<^sup>s \<times> n / d\<close>; a magnitude that rounds to \<open>2\<^sup>1\<^sup>0\<^sup>2\<^sup>4\<close> or
  more overflows to an infinity.\<close>

definition round_to_double :: "bool \<Rightarrow> nat \<Rightarrow> nat \<Rightarrow> double" where
  "round_to_double s n d =
     (if n = 0 then Finite s 0 (- 1074)
      else
        let e = max (floor_log2 n d - 52) (- 1074);
            m = (case scale2 n d e of (n', d') \<Rightarrow> round_half_even n' d')
        in if m = 2 ^ 53
           then (if 971 < e + 1 then Infinity s else Finite s (2 ^ 52) (e + 1))
           else (if 971 < e then Infinity s else Finite s m e))"

text \<open>The product \<^verbatim>\<open>a * b\<close>.\<close>

fun fmul :: "double \<Rightarrow> double \<Rightarrow> double" where
  "fmul NaN b = NaN"
| "fmul a NaN = NaN"
| "fmul (Infinity s) (Infinity t) = Infinity (s \<noteq> t)"
| "fmul (Infinity s) (Finite t n f) = (if n = 0 then NaN else Infinity (s \<noteq> t))"
| "fmul (Finite s m e) (Infinity t) = (if m = 0 then NaN else Infinity (s \<noteq> t))"
| "fmul (Finite s m e) (Finite t n f) =
     (case scale2 (m * n) 1 (- (e + f)) of (p, q) \<Rightarrow> round_to_double (s \<noteq> t) p q)"

text \<open>The unary minus \<^verbatim>\<open>-a\<close>.\<close>

fun fneg :: "double \<Rightarrow> double" where
  "fneg (Finite s m e) = Finite (\<not> s) m e"
| "fneg (Infinity s) = Infinity (\<not> s)"
| "fneg NaN = NaN"

text \<open>The format \<^verbatim>\<open>f"{a:.6f}"\<close>: the exact value rounded to six decimals, ties to even;
  the sign is printed for every negative double, \<^verbatim>\<open>-0.0\<close> included.\<close>

definition pad6 :: "nat \<Rightarrow> string" where
  "pad6 k = replicate (6 - length (str_nat k)) (CHR ''0'') @ str_nat k"

fun format_6f :: "double \<Rightarrow> string" where
  "format_6f (Finite s m e) =
     (case scale2 (m * 1000000) 1 (- e) of (p, q) \<Rightarrow>
        let k = round_half_even p q in
        (if s then ''-'' else '''') @ str_nat (k div 1000000) @ ''.'' @ pad6 (k mod 1000000))"
| "format_6f (Infinity s) = (if s then ''-inf'' else ''inf'')"
| "format_6f NaN = ''nan''"

subsection \<open>Exceptions and the conversion \<^verbatim>\<open>float(token)\<close>\<close>

datatype exn = FileNotFoundError | OSError | ValueError string

fun nat_of_digits :: "nat \<Rightarrow> string \<Rightarrow> nat" where
  "nat_of_digits acc [] = acc"
| "nat_of_digits acc (c # cs) = nat_of_digits (10 * acc + ((of_char c :: nat) - 48)) cs"

text \<open>
  \<^verbatim>\<open>float(s)\<close> on a token of the plane pattern, that is a non-empty string over the
  digits, the dot and the minus sign. Python accepts an optional minus sign followed by
  digits with at most one dot and at least one digit, and raises \<^verbatim>\<open>ValueError\<close> on every
  other such token (\<^verbatim>\<open>"1.2.3"\<close>, \<^verbatim>\<open>"-"\<close>, \<^verbatim>\<open>"."\<close>, \<^verbatim>\<open>"1-2"\<close>, \<^verbatim>\<open>"--1"\<close>). The decimal
  value is rounded to the nearest double.
\<close>

definition py_float :: "string \<Rightarrow> exn + double" where
  "py_float s =
     (let neg = (s \<noteq> [] \<and> hd s = CHR ''-'');
          body = (if neg then tl s else s);
          ip = takeWhile isdigit body;
          rest = dropWhile isdigit body;
          dotted = (rest \<noteq> [] \<and> hd rest = CHR ''.'');
          fp = (if dotted then tl rest else [])
      in if (rest = [] \<or> dotted) \<and> list_all isdigit fp \<and> (ip \<noteq> [] \<or> fp \<noteq> [])
         then Inr (round_to_double neg (nat_of_digits 0 (ip @ fp)) (10 ^ length fp))
         else Inl (ValueError s))"

subsection \<open>The plane pattern\<close>

text \<open>
  The pattern of line 57 is, with \<^verbatim>\<open>T = [\d\.\-]+\<close>,
  \<^verbatim>\<open>\(\s*(T)\s+(T)\s+(T)\s*\)\s*\(\s*(T)\s+(T)\s+(T)\s*\)\s*\(\s*(T)\s+(T)\s+(T)\s*\)\s*([^\s]+).*\<close>
  applied by \<^verbatim>\<open>re.match\<close>, which anchors it at the start of the line only. The classes
  that follow one another are disjoint (white space, token characters, the parentheses,
  non-space), so each greedy repetition must take its longest run and no backtracking
  changes a group: the match is computed by \<open>takeWhile\<close> and \<open>dropWhile\<close>. The final
  \<^verbatim>\<open>.*\<close> accepts every rest of the line.
\<close>

definition is_tok :: "char \<Rightarrow> bool" where
  "is_tok c = (isdigit c \<or> c = CHR ''.'' \<or> c = CHR ''-'')"

text \<open>One group \<^verbatim>\<open>\(\s*(T)\s+(T)\s+(T)\s*\)\<close>: the three tokens and the rest of the line.\<close>

definition match_point :: "string \<Rightarrow> ((string \<times> string \<times> string) \<times> string) option" where
  "match_point s =
     (case s of
        [] \<Rightarrow> None
      | c # r0 \<Rightarrow>
          if c \<noteq> CHR ''('' then None
          else
            let r1 = dropWhile isspace r0;
                t1 = takeWhile is_tok r1; r2 = dropWhile is_tok r1;
                w1 = takeWhile isspace r2; r3 = dropWhile isspace r2;
                t2 = takeWhile is_tok r3; r4 = dropWhile is_tok r3;
                w2 = takeWhile isspace r4; r5 = dropWhile isspace r4;
                t3 = takeWhile is_tok r5; r6 = dropWhile is_tok r5;
                r7 = dropWhile isspace r6
            in if t1 = [] \<or> w1 = [] \<or> t2 = [] \<or> w2 = [] \<or> t3 = [] then None
               else (case r7 of
                       [] \<Rightarrow> None
                     | c' # r8 \<Rightarrow> if c' = CHR '')'' then Some ((t1, t2, t3), r8) else None))"

type_synonym groups =
  "(string \<times> string \<times> string) \<times> (string \<times> string \<times> string) \<times> (string \<times> string \<times> string) \<times> string"

text \<open>The whole pattern: groups 1 to 9 as three triples, and group 10, the texture token.\<close>

definition plane_match :: "string \<Rightarrow> groups option" where
  "plane_match s =
     (case match_point s of
        None \<Rightarrow> None
      | Some (g1, s1) \<Rightarrow>
          (case match_point (dropWhile isspace s1) of
             None \<Rightarrow> None
           | Some (g2, s2) \<Rightarrow>
               (case match_point (dropWhile isspace s2) of
                  None \<Rightarrow> None
                | Some (g3, s3) \<Rightarrow>
                    let tex = takeWhile (\<lambda>c. \<not> isspace c) (dropWhile isspace s3)
                    in if tex = [] then None else Some (g1, g2, g3, tex))))"

subsection \<open>The parsed data\<close>

type_synonym point3 = "double \<times> double \<times> double"

text \<open>The dictionary \<^verbatim>\<open>{'plane': (p1, p2, p3), 'texture': texture_name}\<close> of lines 65-68.\<close>

record plane_data =
  plane :: "point3 \<times> point3 \<times> point3"
  texture :: string

type_synonym brush = "plane_data list"

text \<open>Lines 60-62: the three floats of a point, converted from left to right; the first
  conversion that raises ends the evaluation.\<close>

definition convert_point :: "string \<times> string \<times> string \<Rightarrow> exn + point3" where
  "convert_point g =
     (case g of (a, b, c) \<Rightarrow>
        (case py_float a of
           Inl ex \<Rightarrow> Inl ex
         | Inr x \<Rightarrow>
             (case py_float b of
                Inl ex \<Rightarrow> Inl ex
              | Inr y \<Rightarrow>
                  (case py_float c of
                     Inl ex \<Rightarrow> Inl ex
                   | Inr z \<Rightarrow> Inr (x, y, z)))))"

text \<open>Lines 60-68: the plane record built from a match.\<close>

definition plane_of_groups :: "groups \<Rightarrow> exn + plane_data" where
  "plane_of_groups g =
     (case g of (g1, g2, g3, tex) \<Rightarrow>
        (case convert_point g1 of
           Inl ex \<Rightarrow> Inl ex
         | Inr p1 \<Rightarrow>
             (case convert_point g2 of
                Inl ex \<Rightarrow> Inl ex
              | Inr p2 \<Rightarrow>
                  (case convert_point g3 of
                     Inl ex \<Rightarrow> Inl ex
                   | Inr p3 \<Rightarrow> Inr \<lparr>plane = (p1, p2, p3), texture = lower tex\<rparr>))))"

subsection \<open>The scan of \<^verbatim>\<open>parse_quake_map\<close>\<close>

text \<open>The three local variables of lines 20-24.\<close>

record pstate =
  brushes :: "brush list"
  current_brush_planes :: "plane_data list"
  in_entity_block :: bool

definition init_pstate :: pstate where
  "init_pstate = \<lparr>brushes = [], current_brush_planes = [], in_entity_block = False\<rparr>"

text \<open>The body of the loop, lines 30-69, on one line of the file.\<close>

definition process_line :: "pstate \<Rightarrow> string \<Rightarrow> exn + pstate" where
  "process_line st line =
     (let stripped_line = strip line in
      if stripped_line = [] \<or> startswith stripped_line ''//'' then Inr st
      else if stripped_line = ''{'' then
        (if \<not> in_entity_block st
         then Inr (st\<lparr>in_entity_block := True, current_brush_planes := []\<rparr>)
         else Inr (st\<lparr>current_brush_planes := []\<rparr>))
      else if stripped_line = ''}'' then
        (if current_brush_planes st \<noteq> []
         then Inr (st\<lparr>brushes := brushes st @ [current_brush_planes st],
                      current_brush_planes := []\<rparr>)
         else if in_entity_block st then Inr (st\<lparr>in_entity_block := False\<rparr>)
         else Inr st)
      else if in_entity_block st then
        (case plane_match stripped_line of
           None \<Rightarrow> Inr st
         | Some g \<Rightarrow>
             (case plane_of_groups g of
                Inl ex \<Rightarrow> Inl ex
              | Inr pd \<Rightarrow> Inr (st\<lparr>current_brush_planes := current_brush_planes st @ [pd]\<rparr>)))
      else Inr st)"

text \<open>The loop of line 29: an exception raised in the body leaves the loop.\<close>

fun scan :: "pstate \<Rightarrow> string list \<Rightarrow> exn + pstate" where
  "scan st [] = Inr st"
| "scan st (line # rest) =
     (case process_line st line of
        Inl ex \<Rightarrow> Inl ex
      | Inr st' \<Rightarrow> scan st' rest)"

text \<open>Lines 71-73: the planes still accumulated at the end of the file make a last brush.\<close>

definition flush :: "pstate \<Rightarrow> brush list" where
  "flush st =
     (if current_brush_planes st \<noteq> [] then brushes st @ [current_brush_planes st]
      else brushes st)"

text \<open>
  What \<^verbatim>\<open>open(map_filepath, 'r')\<close> and the iteration over the file give: no such file, a
  failure to open it, the lines the iterator yields (each with its line terminator), or
  some lines followed by a failure of the read.
\<close>

datatype map_file =
    NoSuchFile
  | OpenFails
  | Lines "string list"
  | LinesThenFailure "string list"

text \<open>The messages of the four \<^verbatim>\<open>print\<close> calls, lines 28, 75, 79 and 82.\<close>

datatype message =
    Attempting string
  | Finished string nat
  | MapFileNotFound string
  | ErrorWhileParsing string exn

text \<open>
  \<^verbatim>\<open>parse_quake_map(map_filepath)\<close>: the messages printed and the value returned. The
  handler of \<^verbatim>\<open>FileNotFoundError\<close> and the handler of every other \<^verbatim>\<open>Exception\<close> both
  return the empty list.
\<close>

definition parse_quake_map :: "string \<Rightarrow> map_file \<Rightarrow> message list \<times> brush list" where
  "parse_quake_map map_filepath f =
     (case f of
        NoSuchFile \<Rightarrow> ([MapFileNotFound map_filepath], [])
      | OpenFails \<Rightarrow> ([ErrorWhileParsing map_filepath OSError], [])
      | Lines ls \<Rightarrow>
          (case scan init_pstate ls of
             Inl ex \<Rightarrow> ([Attempting map_filepath, ErrorWhileParsing map_filepath ex], [])
           | Inr st \<Rightarrow>
               ([Attempting map_filepath, Finished map_filepath (length (flush st))], flush st))
      | LinesThenFailure ls \<Rightarrow>
          (case scan init_pstate ls of
             Inl ex \<Rightarrow> ([Attempting map_filepath, ErrorWhileParsing map_filepath ex], [])
           | Inr st \<Rightarrow> ([Attempting map_filepath, ErrorWhileParsing map_filepath OSError], [])))"

text \<open>The value \<^verbatim>\<open>parse_quake_map\<close> returns for a file that is read in full.\<close>

definition parse :: "string list \<Rightarrow> brush list" where
  "parse ls = snd (parse_quake_map [] (Lines ls))"

subsection \<open>The generator \<^verbatim>\<open>generate_vmf_content\<close>\<close>

text \<open>The constant \<^verbatim>\<open>SCALE_FACTOR = 0.75\<close> of line 114: the double \<open>3 \<times> 2\<^sup>5\<^sup>1 \<times> 2\<^sup>-\<^sup>5\<^sup>3\<close>.\<close>

definition SCALE_FACTOR :: double where
  "SCALE_FACTOR = Finite False (3 * 2 ^ 51) (- 53)"

text \<open>Lines 141-143: \<^verbatim>\<open>(p[0] * SCALE_FACTOR, p[2] * SCALE_FACTOR, -p[1] * SCALE_FACTOR)\<close>.\<close>

definition scale_point :: "point3 \<Rightarrow> point3" where
  "scale_point p =
     (case p of (p0, p1, p2) \<Rightarrow>
        (fmul p0 SCALE_FACTOR, fmul p2 SCALE_FACTOR, fmul (fneg p1) SCALE_FACTOR))"

text \<open>Line 146: one point \<^verbatim>\<open>({p_s[0]:.6f} {p_s[1]:.6f} {p_s[2]:.6f})\<close>, and the whole line.\<close>

definition format_point :: "point3 \<Rightarrow> string" where
  "format_point p =
     (case p of (a, b, c) \<Rightarrow>
        ''('' @ format_6f a @ '' '' @ format_6f b @ '' '' @ format_6f c @ '')'')"

definition plane_line :: "plane_data \<Rightarrow> string" where
  \<open>plane_line plane_data =
     (case plane plane_data of (p1, p2, p3) \<Rightarrow>
        ''            "plane" "'' @ format_point (scale_point p1) @ '' ''
          @ format_point (scale_point p2) @ '' '' @ format_point (scale_point p3) @ ''"'')\<close>

text \<open>Line 150.\<close>

definition material_line :: "plane_data \<Rightarrow> string" where
  \<open>material_line plane_data =
     ''            "material" "materials/'' @ upper (texture plane_data) @ ''"''\<close>

text \<open>The list \<^verbatim>\<open>vmf_lines\<close> and the counter \<^verbatim>\<open>current_id\<close>.\<close>

record gstate =
  vmf_lines :: "string list"
  current_id :: nat

text \<open>A run of \<^verbatim>\<open>vmf_lines.append\<close> calls, and \<^verbatim>\<open>current_id += 1\<close>.\<close>

definition append_lines :: "gstate \<Rightarrow> string list \<Rightarrow> gstate" where
  "append_lines st ls = st\<lparr>vmf_lines := vmf_lines st @ ls\<rparr>"

definition increment_id :: "gstate \<Rightarrow> gstate" where
  "increment_id st = st\<lparr>current_id := current_id st + 1\<rparr>"

text \<open>Lines 96-110.\<close>

definition header_lines :: "string list" where
  \<open>header_lines =
     [''versioninfo'',
      ''{'',
      ''    "mapversion" "1"'',
      ''    "editorversion" "400"'',
      ''    "editorbuild" "8000"'',
      ''    "formatversion" "1"'',
      ''    "prefab" "0"'',
      ''}'',
      ''world'',
      ''{'',
      ''    "id" "1"'',
      ''    "mapversion" "1"'',
      ''    "classname" "worldspawn"'']\<close>

text \<open>Lines 128-159: the body of the inner loop, one \<^verbatim>\<open>side\<close> block.\<close>

definition generate_side :: "gstate \<Rightarrow> plane_data \<Rightarrow> gstate" where
  \<open>generate_side st plane_data =
     (let st1 = append_lines st
                  [''        side'',
                   ''        {'',
                   ''            "id" "'' @ str_nat (current_id st) @ ''"''];
          st2 = increment_id st1
      in append_lines st2
           [plane_line plane_data,
            material_line plane_data,
            ''            "uaxis" "[1 0 0 0] 0.0625"'',
            ''            "vaxis" "[0 1 0 0] 0.0625"'',
            ''            "rotation" "0"'',
            ''            "lightmapscale" "16"'',
            ''            "smoothing_groups" "0"'',
            ''        }''])\<close>

text \<open>Lines 121-169: the body of the outer loop, one \<^verbatim>\<open>solid\<close> block.\<close>

definition generate_solid :: "gstate \<Rightarrow> brush \<Rightarrow> gstate" where
  \<open>generate_solid st brush_planes =
     (let st1 = append_lines st
                  [''    solid'',
                   ''    {'',
                   ''        "id" "'' @ str_nat (current_id st) @ ''"''];
          st2 = increment_id st1;
          st3 = foldl generate_side st2 brush_planes
      in append_lines st3
           [''        "editor"'',
            ''        {'',
            ''            "color" "255 0 0"'',
            ''            "visgroupshown" "1"'',
            ''            "visgroupautoshown" "1"'',
            ''            "logicalpos" "[0 0]"'',
            ''        }'',
            ''    }''])\<close>

text \<open>Lines 172-201: the end of the world block, the entity block and the hidden block.\<close>

definition generate_trailer :: "gstate \<Rightarrow> gstate" where
  \<open>generate_trailer st =
     (let st1 = append_lines st
                  [''    "editor"'',
                   ''    {'',
                   ''        "color" "255 0 0"'',
                   ''        "visgroupshown" "1"'',
                   ''        "visgroupautoshown" "1"'',
                   ''        "logicalpos" "[0 0]"'',
                   ''    }'',
                   ''}'',
                   ''entity'',
                   ''{'',
                   ''    "id" "'' @ str_nat (current_id st) @ ''"''];
          st2 = increment_id st1
      in append_lines st2
           [''    "classname" "info_player_start"'',
            ''    "origin" "0 0 64"'',
            ''    "angles" "0 0 0"'',
            ''    "editor"'',
            ''    {'',
            ''        "color" "255 255 0"'',
            ''        "visgroupshown" "1"'',
            ''        "visgroupautoshown" "1"'',
            ''        "logicalpos" "[0 0]"'',
            ''    }'',
            ''}'',
            ''hidden'',
            ''{'',
            ''}''])\<close>

text \<open>The state at line 203: the lines of the document and the counter after the last
  allocation. The counter starts at 2 (line 117).\<close>

definition generate_state :: "brush list \<Rightarrow> gstate" where
  "generate_state map_data =
     generate_trailer
       (foldl generate_solid \<lparr>vmf_lines = header_lines, current_id = 2\<rparr> map_data)"

text \<open>\<^verbatim>\<open>"\n".join(vmf_lines)\<close>.\<close>

fun join :: "string \<Rightarrow> string list \<Rightarrow> string" where
  "join sep [] = []"
| "join sep [l] = l"
| "join sep (l # l' # ls) = l @ sep @ join sep (l' # ls)"

definition generate_vmf_content :: "brush list \<Rightarrow> string" where
  "generate_vmf_content map_data = join [CHR 0x0A] (vmf_lines (generate_state map_data))"

subsection \<open>The loop of \<^verbatim>\<open>convert_folder\<close>\<close>

text \<open>
  Lines 322-353, for the files found: each file is parsed, and a document is generated
  when the parser returned a brush (\<^verbatim>\<open>if brushes:\<close>). The state of the loop that the model
  keeps is the list of the documents handed to \<^verbatim>\<open>f.write\<close>, each with the path of its
  map file; creating the output file and running the compiler on it are left out.
\<close>

definition convert_file :: "string \<times> map_file \<Rightarrow> (string \<times> string) list" where
  "convert_file mf =
     (case mf of (map_filepath, f) \<Rightarrow>
        let brushes = snd (parse_quake_map map_filepath f)
        in if brushes \<noteq> [] then [(map_filepath, generate_vmf_content brushes)] else [])"

fun convert_files :: "(string \<times> string) list \<Rightarrow> (string \<times> map_file) list \<Rightarrow> (string \<times> string) list" where
  "convert_files written [] = written"
| "convert_files written (mf # rest) = convert_files (written @ convert_file mf) rest"

subsection \<open>Vocabulary of the statements\<close>

text \<open>A line that is a lone brace once stripped.\<close>

definition is_brace :: "string \<Rightarrow> bool" where
  "is_brace line = (strip line = ''{'' \<or> strip line = ''}'')"

text \<open>A line that does not match the plane pattern.\<close>

definition unmatched :: "string \<Rightarrow> bool" where
  "unmatched line = (plane_match (strip line) = None)"

text \<open>The plane a line stands for: it matches the pattern and its nine tokens are numbers.\<close>

definition plane_of_line :: "string \<Rightarrow> plane_data option" where
  "plane_of_line line =
     (case plane_match (strip line) of
        None \<Rightarrow> None
      | Some g \<Rightarrow> (case plane_of_groups g of Inl ex \<Rightarrow> None | Inr pd \<Rightarrow> Some pd))"


text \<open>The lines of a document that carry an id, a plane or a material, and the
  indentation of a line.\<close>

definition unindent :: "string \<Rightarrow> string" where
  "unindent l = dropWhile (\<lambda>c. c = CHR '' '') l"

definition indentation :: "string \<Rightarrow> nat" where
  "indentation l = length (takeWhile (\<lambda>c. c = CHR '' '') l)"

definition is_id_line :: "string \<Rightarrow> bool" where
  \<open>is_id_line l = startswith (unindent l) ''"id" "''\<close>

definition is_plane_line :: "string \<Rightarrow> bool" where
  \<open>is_plane_line l = startswith (unindent l) ''"plane" "''\<close>

definition is_material_line :: "string \<Rightarrow> bool" where
  \<open>is_material_line l = startswith (unindent l) ''"material" "''\<close>

definition id_text :: "nat \<Rightarrow> string" where
  \<open>id_text n = ''"id" "'' @ str_nat n @ ''"''\<close>

subsection \<open>Sample data\<close>

text \<open>A plane line, the plane it stands for, and a map with one entity that holds one
  brush of this one plane.\<close>

definition sample_line :: string where
  "sample_line = ''( -128 -128 0 ) ( 128 -128 0 ) ( 128 128 0 ) Wall_Tex 0 0 0 1 1''"

definition sample_plane :: plane_data where
  "sample_plane =
     \<lparr>plane = ((Finite True (2 ^ 52) (- 45), Finite True (2 ^ 52) (- 45), Finite False 0 (- 1074)),
               (Finite False (2 ^ 52) (- 45), Finite True (2 ^ 52) (- 45), Finite False 0 (- 1074)),
               (Finite False (2 ^ 52) (- 45), Finite False (2 ^ 52) (- 45), Finite False 0 (- 1074))),
      texture = ''wall_tex''\<rparr>"

definition sample_map :: "string list" where
  \<open>sample_map = [''{'', ''"classname" "worldspawn"'', ''{'', sample_line, ''}'', ''}'']\<close>





section \<open>Properties of the parser\<close>

subsection \<open>One line\<close>

lemmas char_simps = isspace_def isdigit_def is_tok_def Let_def

lemma match_point_paren: "match_point s = Some r \<Longrightarrow> \<exists>t. s = CHR ''('' # t"
  by (cases s) (auto simp: match_point_def split: if_splits)

lemma plane_match_paren: "plane_match s = Some g \<Longrightarrow> \<exists>t. s = CHR ''('' # t"
  by (auto simp: plane_match_def split: option.splits dest: match_point_paren)

lemma process_line_unmatched:
  "unmatched l \<Longrightarrow> \<not> is_brace l \<Longrightarrow> process_line st l = Inr st"
  by (simp add: unmatched_def is_brace_def process_line_def Let_def)

lemma process_line_plane:
  assumes "plane_of_line l = Some pd" and "in_entity_block st"
  shows "process_line st l = Inr (st\<lparr>current_brush_planes := current_brush_planes st @ [pd]\<rparr>)"
proof -
  from assms(1) obtain g where g: "plane_match (strip l) = Some g" and pg: "plane_of_groups g = Inr pd"
    by (auto simp: plane_of_line_def split: option.splits sum.splits)
  from plane_match_paren [OF g] obtain t where t: "strip l = CHR ''('' # t" by blast
  show ?thesis using g pg assms(2)
    by (simp add: process_line_def Let_def t startswith_def)
qed

lemma process_line_open:
  "strip l = ''{'' \<Longrightarrow>
   process_line st l = Inr (st\<lparr>in_entity_block := True, current_brush_planes := []\<rparr>)"
  by (cases st) (simp add: process_line_def Let_def startswith_def)

lemma process_line_close:
  "strip l = ''}'' \<Longrightarrow>
   process_line st l =
     Inr (if current_brush_planes st \<noteq> []
          then st\<lparr>brushes := brushes st @ [current_brush_planes st], current_brush_planes := []\<rparr>
          else st\<lparr>in_entity_block := False\<rparr>)"
  by (cases st) (simp add: process_line_def Let_def startswith_def)

subsection \<open>The loop\<close>


lemma process_line_brushes_nonempty:
  assumes "process_line st l = Inr st'" and "[] \<notin> set (brushes st)"
  shows "[] \<notin> set (brushes st')"
  using assms
  by (auto simp: process_line_def Let_def split: if_splits option.splits sum.splits)

lemma scan_brushes_nonempty:
  "scan st ls = Inr st' \<Longrightarrow> [] \<notin> set (brushes st) \<Longrightarrow> [] \<notin> set (brushes st')"
proof (induction ls arbitrary: st)
  case Nil
  then show ?case by simp
next
  case (Cons l ls)
  then show ?case
    by (auto split: sum.splits dest: process_line_brushes_nonempty)
qed

lemma flush_nonempty: "[] \<notin> set (brushes st) \<Longrightarrow> [] \<notin> set (flush st)"
  by (simp add: flush_def)

subsection \<open>The sample map\<close>

lemma strip_sample: "strip sample_line = sample_line"
  by (simp add: strip_def sample_line_def char_simps)

lemma py_float_128: "py_float ''128'' = Inr (Finite False (2 ^ 52) (- 45))"
  by (simp add: py_float_def char_simps round_to_double_def floor_log2_def scale2_def
      round_half_even_def bit_length.simps)

lemma py_float_m128: "py_float ''-128'' = Inr (Finite True (2 ^ 52) (- 45))"
  by (simp add: py_float_def char_simps round_to_double_def floor_log2_def scale2_def
      round_half_even_def bit_length.simps)

lemma py_float_0: "py_float ''0'' = Inr (Finite False 0 (- 1074))"
  by (simp add: py_float_def char_simps round_to_double_def)

lemma plane_match_sample:
  "plane_match sample_line =
     Some ((''-128'', ''-128'', ''0''), (''128'', ''-128'', ''0''), (''128'', ''128'', ''0''), ''Wall_Tex'')"
  by (simp add: plane_match_def match_point_def sample_line_def char_simps)

lemma lower_Wall_Tex: "lower ''Wall_Tex'' = ''wall_tex''"
  by (simp add: lower_def lower_char_def char_of_def bit_0)

lemma upper_wall_tex: "upper ''wall_tex'' = ''WALL_TEX''"
  by (simp add: upper_def upper_char_def char_of_def bit_0)

lemma plane_of_line_sample: "plane_of_line sample_line = Some sample_plane"
  by (simp add: plane_of_line_def strip_sample plane_match_sample plane_of_groups_def
      convert_point_def py_float_128 py_float_m128 py_float_0 lower_Wall_Tex sample_plane_def)

lemma strip_open: "strip ''{'' = ''{''" and strip_close: "strip ''}'' = ''}''"
  by (simp_all add: strip_def char_simps)

lemma sample_kv: \<open>process_line st ''"classname" "worldspawn"'' = Inr st\<close>
  by (rule process_line_unmatched)
     (simp_all add: unmatched_def is_brace_def strip_def char_simps plane_match_def match_point_def)

lemma scan_sample_map:
  "scan init_pstate sample_map =
     Inr \<lparr>brushes = [[sample_plane]], current_brush_planes = [], in_entity_block = False\<rparr>"
  by (simp add: sample_map_def init_pstate_def process_line_open [OF strip_open]
      process_line_close [OF strip_close] sample_kv process_line_plane [OF plane_of_line_sample])

lemma parse_sample_map:
  "parse_quake_map p (Lines sample_map) = ([Attempting p, Finished p 1], [[sample_plane]])"
  by (simp add: parse_quake_map_def scan_sample_map flush_def)

subsection \<open>No brush without planes\<close>

text \<open>
  Claim C8. Every brush of the list that \<^verbatim>\<open>parse_quake_map\<close> returns holds at least one
  plane, whatever the file is: a brush is appended at a closing brace, or at the end of the
  file, only when the accumulator is not empty.
\<close>

theorem parse_brushes_have_planes:
  "b \<in> set (snd (parse_quake_map map_filepath f)) \<Longrightarrow> b \<noteq> []"
proof (cases f)
  case (Lines ls)
  assume b: "b \<in> set (snd (parse_quake_map map_filepath f))"
  show ?thesis
  proof (cases "scan init_pstate ls")
    case (Inl ex)
    with b Lines show ?thesis by (simp add: parse_quake_map_def)
  next
    case (Inr st)
    have "[] \<notin> set (brushes st)"
      using scan_brushes_nonempty [OF Inr] by (simp add: init_pstate_def)
    then have "[] \<notin> set (flush st)" by (rule flush_nonempty)
    with b Lines Inr show ?thesis by (auto simp: parse_quake_map_def)
  qed
qed (auto simp: parse_quake_map_def split: sum.splits)

theorem parse_brushes_have_planes_witness:
  "[sample_plane] \<in> set (snd (parse_quake_map ''e1m1.map'' (Lines sample_map)))
   \<and> [sample_plane] \<noteq> []"
proof -
  have h: "[sample_plane] \<in> set (snd (parse_quake_map ''e1m1.map'' (Lines sample_map)))"
    by (simp add: parse_sample_map)
  from parse_brushes_have_planes [OF h] h show ?thesis by simp
qed

subsection \<open>One brush block\<close>

lemma unmatched_no_plane: "unmatched l \<Longrightarrow> plane_of_line l = None"
  by (simp add: unmatched_def plane_of_line_def)













subsection \<open>The end of the file\<close>












subsection \<open>Exceptions\<close>






subsection \<open>Lines that are skipped and lines that are not\<close>








end
